theory Spec2Isabelle
  imports Main
begin

section \<open>Values, exceptions and text\<close>

text \<open>
  Python strings are modelled as \<^typ>\<open>string\<close>, holding the UTF-8 bytes of the text:
  the degree sign is the two bytes C2 B0 and every pictograph of the source is written
  out byte by byte. The program never measures or indexes a string, so nothing depends
  on the difference between bytes and code points.
\<close>

text \<open>
  The values that can arrive in \<open>arguments: dict[str, Any]\<close>. \<open>PObj t s\<close> stands
  for any other object (a float, a list, a dict): \<open>t\<close> is the name of its type and
  \<open>s\<close> the text \<open>str()\<close> gives for it. The program only compares such a value
  with a string, formats it, or hands it to \<open>range\<close>, and these three operations
  depend on nothing else.
\<close>

datatype pyval =
    PNone
  | PBool bool
  | PInt int
  | PStr string
  | PObj string string

datatype exn =
    ValueError string
  | KeyError string
  | TypeError string
  | Exception string

type_synonym 'a result = "exn + 'a"

definition digit_char :: "nat \<Rightarrow> char" where
  "digit_char d = char_of (48 + d)"

fun str_nat :: "nat \<Rightarrow> string" where
  "str_nat n = (if n < 10 then [digit_char n] else str_nat (n div 10) @ [digit_char (n mod 10)])"

declare str_nat.simps [simp del]

definition str_int :: "int \<Rightarrow> string" where
  "str_int i = (if i < 0 then CHR ''-'' # str_nat (nat (- i)) else str_nat (nat i))"

text \<open>\<open>str(v)\<close>, as an f-string applies it to a replacement field.\<close>

fun py_str :: "pyval \<Rightarrow> string" where
  "py_str PNone = ''None''"
| "py_str (PBool b) = (if b then ''True'' else ''False'')"
| "py_str (PInt i) = str_int i"
| "py_str (PStr s) = s"
| "py_str (PObj t s) = s"

fun type_name :: "pyval \<Rightarrow> string" where
  "type_name PNone = ''NoneType''"
| "type_name (PBool b) = ''bool''"
| "type_name (PInt i) = ''int''"
| "type_name (PStr s) = ''str''"
| "type_name (PObj t s) = t"

text \<open>
  \<open>repr(s)\<close> of a string. The quote is the single one, unless the string holds a single
  quote and no double quote. The quote and the backslash are escaped with a backslash;
  tab, line feed and carriage return are written as a backslash and the letter t, n or r;
  every other control character of ASCII is written as a backslash, the letter x and two
  lower-case hexadecimal digits. A byte above 7F is part of the encoding of a character
  outside ASCII and is kept: such a character is taken to be a printable one, which
  \<open>repr\<close> leaves as it is.
\<close>

definition hex_digit :: "nat \<Rightarrow> char" where
  "hex_digit d = (if d < 10 then char_of (48 + d) else char_of (87 + d))"

definition repr_char :: "char \<Rightarrow> char \<Rightarrow> string" where
  "repr_char quote c =
     (if c = quote \<or> c = CHR 0x5C then [CHR 0x5C, c]
      else if c = CHR 0x09 then [CHR 0x5C, CHR ''t'']
      else if c = CHR 0x0A then [CHR 0x5C, CHR ''n'']
      else if c = CHR 0x0D then [CHR 0x5C, CHR ''r'']
      else if (of_char c :: nat) < 32 \<or> (of_char c :: nat) = 127 then
        [CHR 0x5C, CHR ''x'', hex_digit (of_char c div 16), hex_digit (of_char c mod 16)]
      else [c])"

definition py_repr :: "string \<Rightarrow> string" where
  "py_repr s =
     (let quote = (if CHR 0x27 \<in> set s \<and> CHR 0x22 \<notin> set s then CHR 0x22 else CHR 0x27)
      in [quote] @ concat (map (repr_char quote) s) @ [quote])"

text \<open>\<open>str(e)\<close> of an exception. A \<open>KeyError\<close> prints the \<open>repr\<close> of its key.\<close>

fun str_exn :: "exn \<Rightarrow> string" where
  "str_exn (ValueError m) = m"
| "str_exn (KeyError k) = py_repr k"
| "str_exn (TypeError m) = m"
| "str_exn (Exception m) = m"

text \<open>\<open>v == "metric"\<close>: only the string \<open>metric\<close> itself is equal to it.\<close>

definition is_metric :: "pyval \<Rightarrow> bool" where
  "is_metric units = (units = PStr ''metric'')"

text \<open>
  \<open>range(days)\<close>: an \<open>int\<close> (and a \<open>bool\<close>, which is one) gives the indices
  \<open>0, ..., days - 1\<close>, none when \<open>days \<le> 0\<close>; anything else raises \<open>TypeError\<close>.
\<close>

fun py_range :: "pyval \<Rightarrow> int list result" where
  "py_range (PInt n) = Inr (map int [0..<nat n])"
| "py_range (PBool b) = Inr (map int [0..<(if b then 1 else 0)])"
| "py_range v = Inl (TypeError ([CHR 0x27] @ type_name v @ [CHR 0x27] @
     '' object cannot be interpreted as an integer''))"

section \<open>Content items, effects and the server object\<close>

datatype content = TextContent (content_type: string) (content_text: string)

text \<open>
  What a call leaves behind besides its result: the handler methods that were entered, in
  order and with the arguments they received, and the messages given to \<open>logger.error\<close>.
\<close>

datatype invocation =
    Current_weather pyval pyval
  | Weather_forecast pyval pyval pyval

record effects =
  invoked :: "invocation list"
  logged :: "string list"

type_synonym 'a action = "effects \<Rightarrow> 'a result \<times> effects"

definition logger_error :: "string \<Rightarrow> effects \<Rightarrow> effects" where
  "logger_error m s = s\<lparr>logged := logged s @ [m]\<rparr>"

definition enter :: "invocation \<Rightarrow> effects \<Rightarrow> effects" where
  "enter c s = s\<lparr>invoked := invoked s @ [c]\<rparr>"

section \<open>The weather methods\<close>

definition deg :: string where
  "deg = [CHR 0xC2, CHR 0xB0]"

definition thermometer :: string where
  "thermometer = [CHR 0xF0, CHR 0x9F, CHR 0x8C, CHR 0xA1, CHR 0xEF, CHR 0xB8, CHR 0x8F]"

definition cloud :: string where
  "cloud = [CHR 0xE2, CHR 0x98, CHR 0x81, CHR 0xEF, CHR 0xB8, CHR 0x8F]"

definition droplet :: string where
  "droplet = [CHR 0xF0, CHR 0x9F, CHR 0x92, CHR 0xA7]"

definition dash :: string where
  "dash = [CHR 0xF0, CHR 0x9F, CHR 0x92, CHR 0xA8]"

definition calendar :: string where
  "calendar = [CHR 0xF0, CHR 0x9F, CHR 0x93, CHR 0x85]"

definition rain_cloud :: string where
  "rain_cloud = [CHR 0xF0, CHR 0x9F, CHR 0x8C, CHR 0xA7, CHR 0xEF, CHR 0xB8, CHR 0x8F]"

definition temperature :: "pyval \<Rightarrow> string" where
  "temperature units = (if is_metric units then ''22'' @ deg @ ''C'' else ''72'' @ deg @ ''F'')"

definition wind_speed :: "pyval \<Rightarrow> string" where
  "wind_speed units = (if is_metric units then ''10 km/h'' else ''6 mph'')"

definition weather_text :: "pyval \<Rightarrow> pyval \<Rightarrow> string" where
  "weather_text location units =
     ''Current Weather for '' @ py_str location @ '':\<newline>'' @
     thermometer @ '' Temperature: '' @ temperature units @ ''\<newline>'' @
     cloud @ '' Conditions: Partly cloudy\<newline>'' @
     droplet @ '' Humidity: 65%\<newline>'' @
     dash @ '' Wind Speed: '' @ wind_speed units"

text \<open>
  \<open>get_current_weather\<close>: the HTTP client the method opens is never used, the data
  are the mock ones. Nothing in the body of its \<open>try\<close> can raise, so the
  \<open>except\<close> branch is never taken.
\<close>

definition get_current_weather :: "pyval \<Rightarrow> pyval \<Rightarrow> content list action" where
  "get_current_weather location units s =
     (Inr [TextContent ''text'' (weather_text location units)], s)"

definition temp_high :: "pyval \<Rightarrow> int \<Rightarrow> int" where
  "temp_high units i = (if is_metric units then 25 + i else 77 + i * 2)"

definition temp_low :: "pyval \<Rightarrow> int \<Rightarrow> int" where
  "temp_low units i = (if is_metric units then 15 + i else 59 + i * 2)"

definition temp_unit :: "pyval \<Rightarrow> string" where
  "temp_unit units = (if is_metric units then deg @ ''C'' else deg @ ''F'')"

text \<open>The text one turn of the loop appends for index \<open>i\<close>.\<close>

definition forecast_day :: "pyval \<Rightarrow> int \<Rightarrow> string" where
  "forecast_day units i =
     calendar @ '' Day '' @ str_int (i + 1) @ '':\<newline>'' @
     ''   '' @ thermometer @ '' High: '' @ str_int (temp_high units i) @ temp_unit units @
       '', Low: '' @ str_int (temp_low units i) @ temp_unit units @ ''\<newline>'' @
     ''   '' @ cloud @ '' Conditions: '' @ (if i mod 2 = 0 then ''Sunny'' else ''Cloudy'') @
       ''\<newline>'' @
     ''   '' @ rain_cloud @ '' Precipitation: '' @ str_int (10 + i * 5) @ ''%\<newline>\<newline>''"

fun forecast_loop :: "pyval \<Rightarrow> int list \<Rightarrow> string \<Rightarrow> string" where
  "forecast_loop units [] forecast_text = forecast_text"
| "forecast_loop units (i # is) forecast_text =
     forecast_loop units is (forecast_text @ forecast_day units i)"

definition forecast_header :: "pyval \<Rightarrow> pyval \<Rightarrow> string" where
  "forecast_header location days =
     ''Weather Forecast for '' @ py_str location @ '' ('' @ py_str days @ '' days):\<newline>\<newline>''"

text \<open>
  \<open>get_weather_forecast\<close>: \<open>range(days)\<close> raises inside the \<open>try\<close> when
  \<open>days\<close> is not an integer; the method's own \<open>except\<close> logs the error and returns
  the failure text.
\<close>

definition get_weather_forecast :: "pyval \<Rightarrow> pyval \<Rightarrow> pyval \<Rightarrow> content list action" where
  "get_weather_forecast location days units s =
     (case py_range days of
        Inr is \<Rightarrow>
          (Inr [TextContent ''text''
                 (forecast_loop units is (forecast_header location days))], s)
      | Inl e \<Rightarrow>
          (Inr [TextContent ''text'' (''Failed to fetch forecast data: '' @ str_exn e)],
           logger_error (''Error fetching forecast data: '' @ str_exn e) s))"

section \<open>The server object and its protocol handlers\<close>

text \<open>
  The handlers reach the weather methods through \<open>self\<close>, so the object is a parameter
  of the model: a record of its two methods. \<open>WeatherServer\<close> is the object the class
  of the source constructs.
\<close>

record weather_server =
  get_current_weather_method :: "pyval \<Rightarrow> pyval \<Rightarrow> content list action"
  get_weather_forecast_method :: "pyval \<Rightarrow> pyval \<Rightarrow> pyval \<Rightarrow> content list action"

definition WeatherServer :: weather_server where
  "WeatherServer =
     \<lparr>get_current_weather_method = get_current_weather,
      get_weather_forecast_method = get_weather_forecast\<rparr>"

record descriptor =
  name :: string
  description :: string

record Resource = descriptor +
  uri :: string
  mimeType :: string

text \<open>The \<open>inputSchema\<close> of a tool is a dict literal: keys in the order written.\<close>

datatype schema =
    SVal pyval
  | SList "pyval list"
  | SDict "(string \<times> schema) list"

record Tool = descriptor +
  inputSchema :: schema

definition handle_list_resources :: "Resource list" where
  "handle_list_resources =
     [\<lparr>name = ''Current Weather'',
       description = ''Get current weather information for a location'',
       uri = ''weather://current'',
       mimeType = ''application/json''\<rparr>,
      \<lparr>name = ''Weather Forecast'',
       description = ''Get weather forecast for a location'',
       uri = ''weather://forecast'',
       mimeType = ''application/json''\<rparr>]"

text \<open>The argument \<open>u\<close> is the text \<open>str(uri)\<close> gives for the requested uri.\<close>

definition handle_read_resource :: "string \<Rightarrow> string result" where
  "handle_read_resource u =
     (if u = ''weather://current'' then
        Inr ''Current weather data resource - use get_current_weather tool''
      else if u = ''weather://forecast'' then
        Inr ''Weather forecast data resource - use get_weather_forecast tool''
      else Inl (ValueError (''Unknown resource: '' @ u)))"

definition location_schema :: schema where
  "location_schema =
     SDict [(''type'', SVal (PStr ''string'')),
            (''description'', SVal (PStr ''The city name or coordinates (lat,lon)''))]"

definition units_schema :: schema where
  "units_schema =
     SDict [(''type'', SVal (PStr ''string'')),
            (''enum'', SList [PStr ''metric'', PStr ''imperial'', PStr ''kelvin'']),
            (''default'', SVal (PStr ''metric'')),
            (''description'', SVal (PStr ''Temperature units''))]"

definition days_schema :: schema where
  "days_schema =
     SDict [(''type'', SVal (PStr ''integer'')),
            (''minimum'', SVal (PInt 1)),
            (''maximum'', SVal (PInt 5)),
            (''default'', SVal (PInt 3)),
            (''description'', SVal (PStr ''Number of forecast days''))]"

definition handle_list_tools :: "Tool list" where
  "handle_list_tools =
     [\<lparr>name = ''get_current_weather'',
       description = ''Get current weather information for a specific location'',
       inputSchema =
         SDict [(''type'', SVal (PStr ''object'')),
                (''properties'', SDict [(''location'', location_schema),
                                        (''units'', units_schema)]),
                (''required'', SList [PStr ''location''])]\<rparr>,
      \<lparr>name = ''get_weather_forecast'',
       description = ''Get weather forecast for a specific location'',
       inputSchema =
         SDict [(''type'', SVal (PStr ''object'')),
                (''properties'', SDict [(''location'', location_schema),
                                        (''days'', days_schema),
                                        (''units'', units_schema)]),
                (''required'', SList [PStr ''location''])]\<rparr>]"

text \<open>\<open>d[k]\<close> and \<open>d.get(k, default)\<close> on the arguments.\<close>

definition subscript :: "(string \<rightharpoonup> pyval) \<Rightarrow> string \<Rightarrow> pyval result" where
  "subscript d k = (case d k of None \<Rightarrow> Inl (KeyError k) | Some v \<Rightarrow> Inr v)"

definition dict_get :: "(string \<rightharpoonup> pyval) \<Rightarrow> string \<Rightarrow> pyval \<Rightarrow> pyval" where
  "dict_get d k dflt = (case d k of None \<Rightarrow> dflt | Some v \<Rightarrow> v)"

text \<open>
  The body of the \<open>try\<close> of \<open>handle_call_tool\<close>. The arguments of a call are
  evaluated before the method is entered, \<open>arguments["location"]\<close> first, so a missing
  \<open>location\<close> raises with no method entered. \<open>enter\<close> records the entry.
\<close>

definition call_tool_body ::
  "weather_server \<Rightarrow> string \<Rightarrow> (string \<rightharpoonup> pyval) \<Rightarrow> content list action" where
  "call_tool_body self tool_name arguments s =
     (if tool_name = ''get_current_weather'' then
        (case subscript arguments ''location'' of
           Inl e \<Rightarrow> (Inl e, s)
         | Inr location \<Rightarrow>
             (let units = dict_get arguments ''units'' (PStr ''metric'')
              in get_current_weather_method self location units
                   (enter (Current_weather location units) s)))
      else if tool_name = ''get_weather_forecast'' then
        (case subscript arguments ''location'' of
           Inl e \<Rightarrow> (Inl e, s)
         | Inr location \<Rightarrow>
             (let days = dict_get arguments ''days'' (PInt 3);
                  units = dict_get arguments ''units'' (PStr ''metric'')
              in get_weather_forecast_method self location days units
                   (enter (Weather_forecast location days units) s)))
      else (Inl (ValueError (''Unknown tool: '' @ tool_name)), s))"

text \<open>\<open>handle_call_tool\<close>: the \<open>try\<close> with its \<open>except Exception\<close>.\<close>

definition handle_call_tool ::
  "weather_server \<Rightarrow> string \<Rightarrow> (string \<rightharpoonup> pyval) \<Rightarrow> content list action" where
  "handle_call_tool self tool_name arguments s =
     (case call_tool_body self tool_name arguments s of
        (Inr r, s') \<Rightarrow> (Inr r, s')
      | (Inl e, s') \<Rightarrow>
          (Inr [TextContent ''text'' (''Error: '' @ str_exn e)],
           logger_error (''Error calling tool '' @ tool_name @ '': '' @ str_exn e) s'))"

section \<open>Initialization options\<close>

record ToolsCapability =
  listChanged :: bool

record ResourcesCapability = ToolsCapability +
  subscribe :: bool

text \<open>A capability that is not given is \<open>None\<close>: the feature is not advertised.\<close>

record ServerCapabilities =
  resources :: "ResourcesCapability option"
  tools :: "ToolsCapability option"

record InitializationOptions =
  server_name :: string
  server_version :: string
  capabilities :: ServerCapabilities

text \<open>The options \<open>WeatherServer.run\<close> builds and hands to the protocol engine.\<close>

definition run_options :: InitializationOptions where
  "run_options =
     \<lparr>server_name = ''weather-server'',
      server_version = ''1.0.0'',
      capabilities =
        \<lparr>resources = Some \<lparr>listChanged = False, subscribe = False\<rparr>,
         tools = Some \<lparr>listChanged = False\<rparr>\<rparr>\<rparr>"

section \<open>Reading a tool's schema\<close>

fun schema_get :: "schema \<Rightarrow> string \<Rightarrow> schema option" where
  "schema_get (SDict kvs) k = map_of kvs k"
| "schema_get (SVal v) k = None"
| "schema_get (SList vs) k = None"


text \<open>The names a tool's schema lists under \<open>required\<close>.\<close>

definition required_properties :: "Tool \<Rightarrow> pyval list" where
  "required_properties t =
     (case schema_get (inputSchema t) ''required'' of Some (SList ks) \<Rightarrow> ks | _ \<Rightarrow> [])"

text \<open>The properties a tool's schema declares, each with its own schema.\<close>

definition declared_properties :: "Tool \<Rightarrow> (string \<times> schema) list" where
  "declared_properties t =
     (case schema_get (inputSchema t) ''properties'' of Some (SDict ps) \<Rightarrow> ps | _ \<Rightarrow> [])"

section \<open>The protocol engine around the handlers\<close>

text \<open>
  Modelled from the spec: the dispatcher boundary of the protocol engine, which the source
  takes from the \<open>mcp\<close> library and which is not among the source files. A value a
  handler returns is wrapped as the result of a successful Response; an exception that
  leaves a handler is caught at the boundary and converted to an error Response carrying
  its message (spec 4.5, 6 and 7). The error of the wire format has a message only; its
  kind in the spec's taxonomy is the cause the message reports.
\<close>

datatype 'a response = Result 'a | Error string

fun is_error :: "'a response \<Rightarrow> bool" where
  "is_error (Error m) = True"
| "is_error (Result v) = False"

fun respond :: "'a result \<Rightarrow> 'a response" where
  "respond (Inr v) = Result v"
| "respond (Inl e) = Error (str_exn e)"

definition read_resource :: "string \<Rightarrow> string response" where
  "read_resource u = respond (handle_read_resource u)"

text \<open>
  Modelled from the spec: the validation of the arguments of a call, which the dispatcher
  performs before it invokes the handler (spec 4.5) and which belongs to the \<open>mcp\<close>
  library, not to the source files. The descriptor is the one \<open>handle_list_tools\<close>
  declares under the name. Every property the schema lists as required must be present, and
  the value of each present property that the schema declares must satisfy the declared
  type and constraints (\<open>enum\<close>, \<open>minimum\<close>, \<open>maximum\<close>); a property the schema
  does not declare is not looked at. A failed validation is an error Response of kind
  InvalidArguments whose message names the offending field, and the handler is not invoked.
\<close>

definition find_tool :: "string \<Rightarrow> Tool option" where
  "find_tool tool_name = find (\<lambda>t. name t = tool_name) handle_list_tools"

text \<open>
  The declared \<open>type\<close> of a property: a \<open>str\<close> is a string and an \<open>int\<close> an
  integer; a \<open>bool\<close> is a boolean, not an integer. The properties of the two tools
  declare no other type than these two.
\<close>

definition has_type :: "string \<Rightarrow> pyval \<Rightarrow> bool" where
  "has_type ty v =
     (if ty = ''string'' then (case v of PStr s \<Rightarrow> True | _ \<Rightarrow> False)
      else if ty = ''integer'' then (case v of PInt i \<Rightarrow> True | _ \<Rightarrow> False)
      else if ty = ''boolean'' then (case v of PBool b \<Rightarrow> True | _ \<Rightarrow> False)
      else if ty = ''null'' then (case v of PNone \<Rightarrow> True | _ \<Rightarrow> False)
      else True)"

definition satisfies :: "schema \<Rightarrow> pyval \<Rightarrow> bool" where
  "satisfies d v =
     ((case schema_get d ''type'' of Some (SVal (PStr ty)) \<Rightarrow> has_type ty v | _ \<Rightarrow> True) \<and>
      (case schema_get d ''enum'' of Some (SList vs) \<Rightarrow> v \<in> set vs | _ \<Rightarrow> True) \<and>
      (case (schema_get d ''minimum'', v) of
         (Some (SVal (PInt m)), PInt i) \<Rightarrow> m \<le> i | _ \<Rightarrow> True) \<and>
      (case (schema_get d ''maximum'', v) of
         (Some (SVal (PInt m)), PInt i) \<Rightarrow> i \<le> m | _ \<Rightarrow> True))"

definition missing_required :: "Tool \<Rightarrow> (string \<rightharpoonup> pyval) \<Rightarrow> string list" where
  "missing_required t arguments =
     concat (map (\<lambda>k. case k of
                         PStr p \<Rightarrow> (if arguments p = None then [p] else [])
                       | _ \<Rightarrow> [])
                 (required_properties t))"

definition violating :: "Tool \<Rightarrow> (string \<rightharpoonup> pyval) \<Rightarrow> string list" where
  "violating t arguments =
     map fst (filter (\<lambda>(p, d). case arguments p of
                                  None \<Rightarrow> False
                                | Some v \<Rightarrow> \<not> satisfies d v)
                     (declared_properties t))"

text \<open>The offending fields: the missing required ones first, in the order declared.\<close>

definition offending :: "Tool \<Rightarrow> (string \<rightharpoonup> pyval) \<Rightarrow> string list" where
  "offending t arguments = missing_required t arguments @ violating t arguments"

text \<open>
  The first offending field of a call, if there is one. A name that \<open>handle_list_tools\<close>
  does not declare has no schema to validate against: the lookup of the name is the
  handler's own, the \<open>if\<close> chain of \<open>handle_call_tool\<close>, and the call reaches it.
\<close>

definition validate :: "string \<Rightarrow> (string \<rightharpoonup> pyval) \<Rightarrow> string option" where
  "validate tool_name arguments =
     (case find_tool tool_name of
        None \<Rightarrow> None
      | Some t \<Rightarrow> (case offending t arguments of [] \<Rightarrow> None | p # ps \<Rightarrow> Some p))"

definition invalid_arguments :: "string \<Rightarrow> string" where
  "invalid_arguments p = ''InvalidArguments: '' @ p"

definition call_tool ::
  "weather_server \<Rightarrow> string \<Rightarrow> (string \<rightharpoonup> pyval) \<Rightarrow> effects \<Rightarrow>
     content list response \<times> effects" where
  "call_tool self tool_name arguments s =
     (case validate tool_name arguments of
        Some p \<Rightarrow> (Error (invalid_arguments p), s)
      | None \<Rightarrow>
          (case handle_call_tool self tool_name arguments s of (r, s') \<Rightarrow> (respond r, s')))"

text \<open>
  Modelled from the spec: the reply to \<open>initialize\<close>, a Response containing the server
  identity, the version and the capabilities of the options the engine was started with
  (spec 4.3).
\<close>

record initialize_result =
  server_identity :: string
  version :: string
  advertised :: ServerCapabilities

definition initialize :: "InitializationOptions \<Rightarrow> initialize_result" where
  "initialize opts =
     \<lparr>server_identity = server_name opts,
      version = server_version opts,
      advertised = capabilities opts\<rparr>"

text \<open>
  Modelled from the spec: the steady state of a session (spec 4.5, 6). The session owns
  the capabilities value fixed at its start; each request of a recognised method is routed
  to the handler bound to it in \<open>setup_handlers\<close>.
\<close>

datatype request =
    Resources_list
  | Resources_read string
  | Tools_list
  | Tools_call string "string \<rightharpoonup> pyval"

datatype reply =
    Resources_reply "Resource list"
  | Read_reply "string response"
  | Tools_reply "Tool list"
  | Call_reply "content list response"

record session =
  negotiated :: ServerCapabilities
  world :: effects

definition no_effects :: effects where
  "no_effects = \<lparr>invoked = [], logged = []\<rparr>"

definition start_session :: "InitializationOptions \<Rightarrow> session" where
  "start_session opts = \<lparr>negotiated = capabilities opts, world = no_effects\<rparr>"

fun dispatch :: "weather_server \<Rightarrow> request \<Rightarrow> session \<Rightarrow> reply \<times> session" where
  "dispatch self Resources_list sess = (Resources_reply handle_list_resources, sess)"
| "dispatch self (Resources_read u) sess = (Read_reply (read_resource u), sess)"
| "dispatch self Tools_list sess = (Tools_reply handle_list_tools, sess)"
| "dispatch self (Tools_call tool_name arguments) sess =
     (case call_tool self tool_name arguments (world sess) of
        (r, s') \<Rightarrow> (Call_reply r, sess\<lparr>world := s'\<rparr>))"

fun serve :: "weather_server \<Rightarrow> request list \<Rightarrow> session \<Rightarrow> reply list \<times> session" where
  "serve self [] sess = ([], sess)"
| "serve self (req # reqs) sess =
     (case dispatch self req sess of
        (r, sess') \<Rightarrow> (case serve self reqs sess' of (rs, sess'') \<Rightarrow> (r # rs, sess'')))"

fun is_listing :: "request \<Rightarrow> bool" where
  "is_listing Resources_list = True"
| "is_listing Tools_list = True"
| "is_listing (Resources_read u) = False"
| "is_listing (Tools_call tool_name arguments) = False"

fun listing_reply :: "request \<Rightarrow> reply" where
  "listing_reply Tools_list = Tools_reply handle_list_tools"
| "listing_reply req = Resources_reply handle_list_resources"

text \<open>
  A server object whose two methods raise \<open>e\<close> as soon as they are entered: the test
  double against which the behaviour of the handlers on a failing method is observed.
\<close>

definition raising_server :: "exn \<Rightarrow> weather_server" where
  "raising_server e =
     \<lparr>get_current_weather_method = (\<lambda>location units s. (Inl e, s)),
      get_weather_forecast_method = (\<lambda>location days units s. (Inl e, s))\<rparr>"

section \<open>Basic facts about the handlers\<close>

lemma tool_names:
  "map name handle_list_tools = [''get_current_weather'', ''get_weather_forecast'']"
  by (simp add: handle_list_tools_def)

lemma resource_uris:
  "map uri handle_list_resources = [''weather://current'', ''weather://forecast'']"
  by (simp add: handle_list_resources_def)

lemma repr_location: "py_repr ''location'' = [CHR 0x27] @ ''location'' @ [CHR 0x27]"
  by (simp add: py_repr_def repr_char_def Let_def)

lemma body_unknown:
  "tool_name \<noteq> ''get_current_weather'' \<Longrightarrow> tool_name \<noteq> ''get_weather_forecast'' \<Longrightarrow>
   call_tool_body self tool_name arguments s =
     (Inl (ValueError (''Unknown tool: '' @ tool_name)), s)"
  by (simp add: call_tool_body_def)

lemma body_missing_location:
  "tool_name = ''get_current_weather'' \<or> tool_name = ''get_weather_forecast'' \<Longrightarrow>
   arguments ''location'' = None \<Longrightarrow>
   call_tool_body self tool_name arguments s = (Inl (KeyError ''location''), s)"
  by (auto simp add: call_tool_body_def subscript_def)

lemma body_current:
  "arguments ''location'' = Some l \<Longrightarrow>
   call_tool_body self ''get_current_weather'' arguments s =
     get_current_weather_method self l (dict_get arguments ''units'' (PStr ''metric''))
       (enter (Current_weather l (dict_get arguments ''units'' (PStr ''metric''))) s)"
  by (simp add: call_tool_body_def subscript_def Let_def)

lemma body_forecast:
  "arguments ''location'' = Some l \<Longrightarrow>
   call_tool_body self ''get_weather_forecast'' arguments s =
     get_weather_forecast_method self l (dict_get arguments ''days'' (PInt 3))
       (dict_get arguments ''units'' (PStr ''metric''))
       (enter (Weather_forecast l (dict_get arguments ''days'' (PInt 3))
                 (dict_get arguments ''units'' (PStr ''metric''))) s)"
  by (simp add: call_tool_body_def subscript_def Let_def)

lemma handle_raised:
  "call_tool_body self tool_name arguments s = (Inl e, s') \<Longrightarrow>
   handle_call_tool self tool_name arguments s =
     (Inr [TextContent ''text'' (''Error: '' @ str_exn e)],
      logger_error (''Error calling tool '' @ tool_name @ '': '' @ str_exn e) s')"
  by (simp add: handle_call_tool_def)

lemma invoked_logger_error: "invoked (logger_error m s) = invoked s"
  by (simp add: logger_error_def)

section \<open>Basic facts about the validation\<close>

lemma required_of_tools:
  "t \<in> set handle_list_tools \<Longrightarrow> required_properties t = [PStr ''location'']"
  by (auto simp add: handle_list_tools_def required_properties_def)

lemma find_tool_listed: "t \<in> set handle_list_tools \<Longrightarrow> find_tool (name t) = Some t"
  by (auto simp add: find_tool_def handle_list_tools_def)

lemma find_tool_unlisted:
  "tool_name \<notin> set (map name handle_list_tools) \<Longrightarrow> find_tool tool_name = None"
  by (auto simp add: find_tool_def handle_list_tools_def)

lemma validate_unlisted:
  "tool_name \<notin> set (map name handle_list_tools) \<Longrightarrow> validate tool_name arguments = None"
  by (simp add: validate_def find_tool_unlisted)

lemma validate_listed:
  "t \<in> set handle_list_tools \<Longrightarrow>
   validate (name t) arguments =
     (case offending t arguments of [] \<Rightarrow> None | p # ps \<Rightarrow> Some p)"
  by (simp add: validate_def find_tool_listed)

lemma call_tool_valid:
  "validate tool_name arguments = None \<Longrightarrow>
   call_tool self tool_name arguments s =
     (case handle_call_tool self tool_name arguments s of (r, s') \<Rightarrow> (respond r, s'))"
  by (simp add: call_tool_def)

lemma call_tool_invalid:
  "validate tool_name arguments = Some p \<Longrightarrow>
   call_tool self tool_name arguments s = (Error (invalid_arguments p), s)"
  by (simp add: call_tool_def)

lemma missing_required_location:
  "t \<in> set handle_list_tools \<Longrightarrow>
   missing_required t arguments = (if arguments ''location'' = None then [''location''] else [])"
  by (simp add: missing_required_def required_of_tools)

section \<open>Unknown tool names\<close>

text \<open>
  Claim C1, as stated: for every tool name not in the registry, \<open>call_tool\<close> returns an
  error Response of kind NotFound and no handler is invoked. The first half fails on the
  code: the \<open>raise ValueError\<close> for an unknown name sits inside the \<open>try\<close> of
  \<open>handle_call_tool\<close>, whose \<open>except Exception\<close> turns it into a returned text item,
  so the Response is a successful one. Shown at the name \<open>missing\<close> with no arguments.
\<close>

theorem unknown_tool_counterexample:
  "\<not> is_error (fst (call_tool WeatherServer ''missing'' Map.empty no_effects))"
  by (simp add: call_tool_def validate_def find_tool_def handle_list_tools_def
      handle_call_tool_def call_tool_body_def)

text \<open>
  Claim C1, amended: for every tool name other than the two listed by
  \<open>handle_list_tools\<close>, whatever the server object, the arguments and the state, the
  call yields a successful Response whose only content item is the text
  \<open>Error: Unknown tool: <name>\<close>; the same message is logged, and no handler method is
  entered.
\<close>

theorem unknown_tool_reported_as_text:
  "tool_name \<notin> set (map name handle_list_tools) \<Longrightarrow>
   call_tool self tool_name arguments s =
     (Result [TextContent ''text'' (''Error: Unknown tool: '' @ tool_name)],
      logger_error (''Error calling tool '' @ tool_name @ '': Unknown tool: '' @ tool_name) s)
   \<and> invoked (snd (call_tool self tool_name arguments s)) = invoked s"
proof -
  assume u: "tool_name \<notin> set (map name handle_list_tools)"
  then have n: "tool_name \<noteq> ''get_current_weather''" "tool_name \<noteq> ''get_weather_forecast''"
    by (simp_all add: tool_names)
  have "handle_call_tool self tool_name arguments s =
     (Inr [TextContent ''text'' (''Error: Unknown tool: '' @ tool_name)],
      logger_error (''Error calling tool '' @ tool_name @ '': Unknown tool: '' @ tool_name) s)"
    using handle_raised [OF body_unknown [OF n]] by simp
  then show ?thesis
    by (simp add: call_tool_valid [OF validate_unlisted [OF u]] invoked_logger_error)
qed

theorem unknown_tool_reported_as_text_witness:
  "''missing'' \<notin> set (map name handle_list_tools) \<and>
   call_tool WeatherServer ''missing'' Map.empty no_effects =
     (Result [TextContent ''text'' ''Error: Unknown tool: missing''],
      \<lparr>invoked = [], logged = [''Error calling tool missing: Unknown tool: missing'']\<rparr>)"
proof -
  have h: "''missing'' \<notin> set (map name handle_list_tools)"
    by (simp add: tool_names)
  show ?thesis
    using h unknown_tool_reported_as_text [OF h, of WeatherServer Map.empty no_effects]
    by (simp add: logger_error_def no_effects_def)
qed

section \<open>Missing required properties\<close>

text \<open>
  Claim C2: calling a registered tool with arguments that omit a required property yields
  an error Response of kind InvalidArguments whose message names the property, and the
  handler is not invoked. For every tool \<open>t\<close> of \<open>handle_list_tools\<close> and every
  property \<open>p\<close> its schema lists as required (for both tools the list is exactly
  \<open>location\<close>): when the arguments omit \<open>p\<close>, the call is answered, whatever the
  server object, by the error Response whose message is \<open>InvalidArguments: p\<close>, and the
  state is the one before the call, so no weather method was entered and nothing was
  logged.
\<close>

theorem missing_required_rejected:
  "(t \<in> set handle_list_tools \<and> PStr p \<in> set (required_properties t) \<and> arguments p = None
      \<longrightarrow> call_tool self (name t) arguments s = (Error (''InvalidArguments: '' @ p), s)
          \<and> is_error (fst (call_tool self (name t) arguments s))
          \<and> invoked (snd (call_tool self (name t) arguments s)) = invoked s
          \<and> logged (snd (call_tool self (name t) arguments s)) = logged s)
   \<and> map (\<lambda>t. (name t, required_properties t)) handle_list_tools =
       [(''get_current_weather'', [PStr ''location'']),
        (''get_weather_forecast'', [PStr ''location''])]"
proof -
  have r: "map (\<lambda>t. (name t, required_properties t)) handle_list_tools =
       [(''get_current_weather'', [PStr ''location'']),
        (''get_weather_forecast'', [PStr ''location''])]"
    by (simp add: handle_list_tools_def required_properties_def)
  have c: "call_tool self (name t) arguments s = (Error (''InvalidArguments: '' @ p), s)"
    if t: "t \<in> set handle_list_tools" and p: "PStr p \<in> set (required_properties t)"
      and a: "arguments p = None"
  proof -
    from t p have pl: "p = ''location''"
      by (simp add: required_of_tools)
    have "offending t arguments = ''location'' # violating t arguments"
      using a pl by (simp add: offending_def missing_required_location [OF t])
    then have "validate (name t) arguments = Some p"
      using pl by (simp add: validate_listed [OF t])
    then show ?thesis
      by (simp add: call_tool_invalid invalid_arguments_def)
  qed
  show ?thesis
    using r c by simp
qed

theorem missing_required_rejected_witness:
  "last handle_list_tools \<in> set handle_list_tools \<and>
   PStr ''location'' \<in> set (required_properties (last handle_list_tools)) \<and>
   [''days'' \<mapsto> PInt 2] ''location'' = None \<and>
   call_tool WeatherServer ''get_weather_forecast'' [''days'' \<mapsto> PInt 2] no_effects =
     (Error ''InvalidArguments: location'', no_effects) \<and>
   call_tool WeatherServer ''get_current_weather'' Map.empty no_effects =
     (Error ''InvalidArguments: location'', no_effects)"
proof -
  have t: "last handle_list_tools \<in> set handle_list_tools"
    and t': "hd handle_list_tools \<in> set handle_list_tools"
    by (simp_all add: handle_list_tools_def)
  have p: "PStr ''location'' \<in> set (required_properties (last handle_list_tools))"
    and p': "PStr ''location'' \<in> set (required_properties (hd handle_list_tools))"
    by (simp_all add: handle_list_tools_def required_properties_def)
  have a: "[''days'' \<mapsto> PInt 2] ''location'' = None"
    by simp
  have n: "name (last handle_list_tools) = ''get_weather_forecast''"
    and n': "name (hd handle_list_tools) = ''get_current_weather''"
    by (simp_all add: handle_list_tools_def)
  show ?thesis
    using t p a t' p'
      missing_required_rejected
        [of "last handle_list_tools" "''location''" "[''days'' \<mapsto> PInt 2]"
            WeatherServer no_effects]
      missing_required_rejected
        [of "hd handle_list_tools" "''location''" Map.empty WeatherServer no_effects]
    by (simp add: n n')
qed

section \<open>Failures of a tool method and of a resource read\<close>

lemma call_tool_raised:
  "validate tool_name arguments = None \<Longrightarrow>
   call_tool_body self tool_name arguments s = (Inl e, s') \<Longrightarrow>
   call_tool self tool_name arguments s =
     (Result [TextContent ''text'' (''Error: '' @ str_exn e)],
      logger_error (''Error calling tool '' @ tool_name @ '': '' @ str_exn e) s')"
  by (simp add: call_tool_valid handle_raised)

text \<open>
  Claim C3: a call of a registered tool whose handler method raises yields a successful
  Response, not an error one, whose content text contains the description of the failure;
  a failure of the resource-read handler becomes an error Response. For every server
  object \<open>self\<close>: when \<open>location\<close> is present and the method bound to the tool ends by
  raising \<open>e\<close>, \<open>handle_call_tool\<close> returns \<open>[TextContent "Error: " + str(e)]\<close>, and
  the Response to the call, whose arguments passed the validation for the method to be
  invoked, is the successful one carrying that list; when \<open>handle_read_resource\<close>
  raises \<open>e\<close>, the Response is the error carrying \<open>str(e)\<close>.
\<close>

theorem handler_failure_is_tool_output:
  "(arguments ''location'' = Some l \<and>
    get_current_weather_method self l (dict_get arguments ''units'' (PStr ''metric''))
      (enter (Current_weather l (dict_get arguments ''units'' (PStr ''metric''))) s) = (Inl e, s')
    \<longrightarrow> handle_call_tool self ''get_current_weather'' arguments s =
          (Inr [TextContent ''text'' (''Error: '' @ str_exn e)],
           logger_error (''Error calling tool get_current_weather: '' @ str_exn e) s')
        \<and> (validate ''get_current_weather'' arguments = None \<longrightarrow>
           call_tool self ''get_current_weather'' arguments s =
             (Result [TextContent ''text'' (''Error: '' @ str_exn e)],
              logger_error (''Error calling tool get_current_weather: '' @ str_exn e) s')))
   \<and> (arguments ''location'' = Some l \<and>
    get_weather_forecast_method self l (dict_get arguments ''days'' (PInt 3))
      (dict_get arguments ''units'' (PStr ''metric''))
      (enter (Weather_forecast l (dict_get arguments ''days'' (PInt 3))
                (dict_get arguments ''units'' (PStr ''metric''))) s) = (Inl e, s')
    \<longrightarrow> handle_call_tool self ''get_weather_forecast'' arguments s =
          (Inr [TextContent ''text'' (''Error: '' @ str_exn e)],
           logger_error (''Error calling tool get_weather_forecast: '' @ str_exn e) s')
        \<and> (validate ''get_weather_forecast'' arguments = None \<longrightarrow>
           call_tool self ''get_weather_forecast'' arguments s =
             (Result [TextContent ''text'' (''Error: '' @ str_exn e)],
              logger_error (''Error calling tool get_weather_forecast: '' @ str_exn e) s')))
   \<and> (handle_read_resource u = Inl e \<longrightarrow> read_resource u = Error (str_exn e))"
proof -
  have c: "handle_call_tool self ''get_current_weather'' arguments s =
          (Inr [TextContent ''text'' (''Error: '' @ str_exn e)],
           logger_error (''Error calling tool get_current_weather: '' @ str_exn e) s')
        \<and> (validate ''get_current_weather'' arguments = None \<longrightarrow>
           call_tool self ''get_current_weather'' arguments s =
             (Result [TextContent ''text'' (''Error: '' @ str_exn e)],
              logger_error (''Error calling tool get_current_weather: '' @ str_exn e) s'))"
    if "arguments ''location'' = Some l \<and>
    get_current_weather_method self l (dict_get arguments ''units'' (PStr ''metric''))
      (enter (Current_weather l (dict_get arguments ''units'' (PStr ''metric''))) s) = (Inl e, s')"
  proof -
    from that have b: "call_tool_body self ''get_current_weather'' arguments s = (Inl e, s')"
      by (simp add: body_current)
    show ?thesis
      using handle_raised [OF b] call_tool_raised [OF _ b] by simp
  qed
  have f: "handle_call_tool self ''get_weather_forecast'' arguments s =
          (Inr [TextContent ''text'' (''Error: '' @ str_exn e)],
           logger_error (''Error calling tool get_weather_forecast: '' @ str_exn e) s')
        \<and> (validate ''get_weather_forecast'' arguments = None \<longrightarrow>
           call_tool self ''get_weather_forecast'' arguments s =
             (Result [TextContent ''text'' (''Error: '' @ str_exn e)],
              logger_error (''Error calling tool get_weather_forecast: '' @ str_exn e) s'))"
    if "arguments ''location'' = Some l \<and>
    get_weather_forecast_method self l (dict_get arguments ''days'' (PInt 3))
      (dict_get arguments ''units'' (PStr ''metric''))
      (enter (Weather_forecast l (dict_get arguments ''days'' (PInt 3))
                (dict_get arguments ''units'' (PStr ''metric''))) s) = (Inl e, s')"
  proof -
    from that have b: "call_tool_body self ''get_weather_forecast'' arguments s = (Inl e, s')"
      by (simp add: body_forecast)
    show ?thesis
      using handle_raised [OF b] call_tool_raised [OF _ b] by simp
  qed
  have r: "read_resource u = Error (str_exn e)" if "handle_read_resource u = Inl e"
    using that by (simp add: read_resource_def)
  show ?thesis
    using c f r by blast
qed

theorem handler_failure_is_tool_output_witness:
  "validate ''get_current_weather'' [''location'' \<mapsto> PStr ''Oslo''] = None
   \<and> call_tool (raising_server (Exception ''boom'')) ''get_current_weather''
       [''location'' \<mapsto> PStr ''Oslo''] no_effects =
     (Result [TextContent ''text'' ''Error: boom''],
      \<lparr>invoked = [Current_weather (PStr ''Oslo'') (PStr ''metric'')],
       logged = [''Error calling tool get_current_weather: boom'']\<rparr>)
   \<and> validate ''get_weather_forecast'' [''location'' \<mapsto> PStr ''Oslo''] = None
   \<and> call_tool (raising_server (Exception ''boom'')) ''get_weather_forecast''
       [''location'' \<mapsto> PStr ''Oslo''] no_effects =
     (Result [TextContent ''text'' ''Error: boom''],
      \<lparr>invoked = [Weather_forecast (PStr ''Oslo'') (PInt 3) (PStr ''metric'')],
       logged = [''Error calling tool get_weather_forecast: boom'']\<rparr>)
   \<and> handle_read_resource ''res://b'' = Inl (ValueError ''Unknown resource: res://b'')
   \<and> read_resource ''res://b'' = Error ''Unknown resource: res://b''"
proof -
  let ?a = "[''location'' \<mapsto> PStr ''Oslo'']"
  have l: "?a ''location'' = Some (PStr ''Oslo'')"
    by simp
  have u: "dict_get ?a ''units'' (PStr ''metric'') = PStr ''metric''"
    and d: "dict_get ?a ''days'' (PInt 3) = PInt 3"
    by (simp_all add: dict_get_def)
  have v: "validate ''get_current_weather'' ?a = None"
    and w: "validate ''get_weather_forecast'' ?a = None"
    by (simp_all add: validate_def find_tool_def handle_list_tools_def offending_def
        missing_required_def required_properties_def violating_def declared_properties_def
        satisfies_def has_type_def location_schema_def)
  have r: "handle_read_resource ''res://b'' = Inl (ValueError ''Unknown resource: res://b'')"
    by (simp add: handle_read_resource_def)
  show ?thesis
    using l r v w
      handler_failure_is_tool_output
        [where arguments = ?a and l = "PStr ''Oslo''"
           and self = "raising_server (Exception ''boom'')" and s = no_effects
           and e = "Exception ''boom''"
           and s' = "enter (Current_weather (PStr ''Oslo'') (PStr ''metric'')) no_effects"
           and u = "''weather://current''"]
      handler_failure_is_tool_output
        [where arguments = ?a and l = "PStr ''Oslo''"
           and self = "raising_server (Exception ''boom'')" and s = no_effects
           and e = "Exception ''boom''"
           and s' = "enter (Weather_forecast (PStr ''Oslo'') (PInt 3) (PStr ''metric'')) no_effects"
           and u = "''weather://current''"]
      handler_failure_is_tool_output
        [where u = "''res://b''" and e = "ValueError ''Unknown resource: res://b''"
           and arguments = Map.empty]
    by (simp add: u d raising_server_def enter_def logger_error_def no_effects_def)
qed

section \<open>Reading resources\<close>

text \<open>
  Claim C4: for every uri that \<open>handle_list_resources\<close> does not list, \<open>read_resource\<close>
  responds with an error Response, whose message reports the unknown resource (the
  NotFound case of the taxonomy); for a listed uri the Response carries the text the read
  handler returns; and whenever the read handler fails, the failure is an error Response.
\<close>

theorem read_resource_registered_or_not_found:
  "(u \<notin> set (map uri handle_list_resources) \<longrightarrow>
      read_resource u = Error (''Unknown resource: '' @ u))
   \<and> (u \<in> set (map uri handle_list_resources) \<longrightarrow>
      (\<exists>t. handle_read_resource u = Inr t \<and> read_resource u = Result t))
   \<and> (handle_read_resource u = Inl e \<longrightarrow> read_resource u = Error (str_exn e))"
  by (auto simp add: resource_uris read_resource_def handle_read_resource_def)

theorem read_resource_registered_or_not_found_witness:
  "''res://b'' \<notin> set (map uri handle_list_resources)
   \<and> read_resource ''res://b'' = Error ''Unknown resource: res://b''
   \<and> ''weather://current'' \<in> set (map uri handle_list_resources)
   \<and> read_resource ''weather://current'' =
       Result ''Current weather data resource - use get_current_weather tool''
   \<and> handle_read_resource ''weather://nowhere'' =
       Inl (ValueError ''Unknown resource: weather://nowhere'')
   \<and> read_resource ''weather://nowhere'' = Error ''Unknown resource: weather://nowhere''"
proof -
  have a: "''res://b'' \<notin> set (map uri handle_list_resources)"
    and b: "''weather://current'' \<in> set (map uri handle_list_resources)"
    by (simp_all add: resource_uris)
  have c: "handle_read_resource ''weather://nowhere'' =
       Inl (ValueError ''Unknown resource: weather://nowhere'')"
    and d: "handle_read_resource ''weather://current'' =
       Inr ''Current weather data resource - use get_current_weather tool''"
    by (simp_all add: handle_read_resource_def)
  show ?thesis
    using a b c d
      read_resource_registered_or_not_found [where u = "''res://b''"]
      read_resource_registered_or_not_found [where u = "''weather://current''"]
      read_resource_registered_or_not_found
        [where u = "''weather://nowhere''"
           and e = "ValueError ''Unknown resource: weather://nowhere''"]
    by simp
qed

section \<open>Totality of the tool-call handler\<close>

lemma real_body_raises_before_entry:
  "call_tool_body WeatherServer tool_name arguments s = (Inl e, s') \<Longrightarrow>
   s' = s \<and>
   ((tool_name \<notin> set (map name handle_list_tools) \<and>
       e = ValueError (''Unknown tool: '' @ tool_name)) \<or>
    (tool_name \<in> set (map name handle_list_tools) \<and> arguments ''location'' = None \<and>
       e = KeyError ''location''))"
  by (cases "arguments ''location''"; cases "py_range (dict_get arguments ''days'' (PInt 3))")
     (auto simp add: call_tool_body_def subscript_def tool_names WeatherServer_def
        get_current_weather_def get_weather_forecast_def Let_def split: if_splits)

lemma real_forecast_caught:
  "arguments ''location'' = Some l \<Longrightarrow> py_range (dict_get arguments ''days'' (PInt 3)) = Inl e \<Longrightarrow>
   handle_call_tool WeatherServer ''get_weather_forecast'' arguments s =
     (Inr [TextContent ''text'' (''Failed to fetch forecast data: '' @ str_exn e)],
      logger_error (''Error fetching forecast data: '' @ str_exn e)
        (enter (Weather_forecast l (dict_get arguments ''days'' (PInt 3))
                  (dict_get arguments ''units'' (PStr ''metric''))) s))"
  by (simp add: handle_call_tool_def body_forecast WeatherServer_def get_weather_forecast_def)

text \<open>
  Claim C9, as stated: \<open>handle_call_tool\<close> never propagates an exception, and whenever
  any failure occurs (unknown name, missing argument, or handler error) the returned list
  is a single text item that starts with \<open>Error: \<close>. The last part fails on the code
  for an error inside \<open>get_weather_forecast\<close>: with \<open>days = "3"\<close>, a string,
  \<open>range(days)\<close> raises \<open>TypeError\<close> inside the method's own \<open>try\<close>, whose
  \<open>except\<close> logs it and returns the text \<open>Failed to fetch forecast data: ...\<close>, and
  \<open>handle_call_tool\<close> passes that list on.
\<close>

theorem caught_forecast_error_counterexample:
  "handle_call_tool WeatherServer ''get_weather_forecast''
       [''location'' \<mapsto> PStr ''Oslo'', ''days'' \<mapsto> PStr ''3''] no_effects =
     (Inr [TextContent ''text''
            (''Failed to fetch forecast data: '' @ [CHR 0x27] @ ''str'' @ [CHR 0x27] @
             '' object cannot be interpreted as an integer'')],
      \<lparr>invoked = [Weather_forecast (PStr ''Oslo'') (PStr ''3'') (PStr ''metric'')],
       logged = [''Error fetching forecast data: '' @ [CHR 0x27] @ ''str'' @ [CHR 0x27] @
                 '' object cannot be interpreted as an integer'']\<rparr>)
   \<and> take 7 (content_text (hd (projr (fst (handle_call_tool WeatherServer
        ''get_weather_forecast''
        [''location'' \<mapsto> PStr ''Oslo'', ''days'' \<mapsto> PStr ''3''] no_effects))))) \<noteq> ''Error: ''"
  by (simp add: handle_call_tool_def call_tool_body_def subscript_def dict_get_def
      WeatherServer_def get_weather_forecast_def enter_def logger_error_def no_effects_def
      Let_def)

text \<open>
  Claim C9, amended: \<open>handle_call_tool\<close> is total. For every server object, tool name,
  arguments and state it returns a list of content items and propagates no exception; and
  whenever the body of its \<open>try\<close> ends by raising \<open>e\<close>, the returned list is the
  single text item \<open>"Error: " + str(e)\<close> and the error is logged. The body raises for
  an unknown name (\<open>ValueError\<close>), for a missing \<open>location\<close> (\<open>KeyError\<close>), and
  whenever the method it calls raises. The methods of \<open>WeatherServer\<close> itself never
  raise, so on it the body raises in the first two cases only, with no method entered; an
  error inside its \<open>get_weather_forecast\<close> (\<open>days\<close> is not an integer) is caught by
  the method, which logs it and returns the single text item
  \<open>"Failed to fetch forecast data: " + str(e)\<close>, and that is what
  \<open>handle_call_tool\<close> returns.
\<close>

theorem handle_call_tool_total:
  "(\<exists>r. fst (handle_call_tool self tool_name arguments s) = Inr r)
   \<and> (call_tool_body self tool_name arguments s = (Inl e, s') \<longrightarrow>
        handle_call_tool self tool_name arguments s =
          (Inr [TextContent ''text'' (''Error: '' @ str_exn e)],
           logger_error (''Error calling tool '' @ tool_name @ '': '' @ str_exn e) s'))
   \<and> (tool_name \<notin> set (map name handle_list_tools) \<longrightarrow>
        call_tool_body self tool_name arguments s =
          (Inl (ValueError (''Unknown tool: '' @ tool_name)), s))
   \<and> (tool_name \<in> set (map name handle_list_tools) \<and> arguments ''location'' = None \<longrightarrow>
        call_tool_body self tool_name arguments s = (Inl (KeyError ''location''), s))
   \<and> (arguments ''location'' = Some l \<and>
       get_current_weather_method self l (dict_get arguments ''units'' (PStr ''metric''))
         (enter (Current_weather l (dict_get arguments ''units'' (PStr ''metric''))) s)
         = (Inl e, s') \<longrightarrow>
        call_tool_body self ''get_current_weather'' arguments s = (Inl e, s'))
   \<and> (arguments ''location'' = Some l \<and>
       get_weather_forecast_method self l (dict_get arguments ''days'' (PInt 3))
         (dict_get arguments ''units'' (PStr ''metric''))
         (enter (Weather_forecast l (dict_get arguments ''days'' (PInt 3))
                   (dict_get arguments ''units'' (PStr ''metric''))) s)
         = (Inl e, s') \<longrightarrow>
        call_tool_body self ''get_weather_forecast'' arguments s = (Inl e, s'))
   \<and> (call_tool_body WeatherServer tool_name arguments s = (Inl e, s') \<longrightarrow>
        s' = s \<and>
        ((tool_name \<notin> set (map name handle_list_tools) \<and>
            e = ValueError (''Unknown tool: '' @ tool_name)) \<or>
         (tool_name \<in> set (map name handle_list_tools) \<and> arguments ''location'' = None \<and>
            e = KeyError ''location'')))
   \<and> (arguments ''location'' = Some l \<and>
       py_range (dict_get arguments ''days'' (PInt 3)) = Inl e \<longrightarrow>
        handle_call_tool WeatherServer ''get_weather_forecast'' arguments s =
          (Inr [TextContent ''text'' (''Failed to fetch forecast data: '' @ str_exn e)],
           logger_error (''Error fetching forecast data: '' @ str_exn e)
             (enter (Weather_forecast l (dict_get arguments ''days'' (PInt 3))
                       (dict_get arguments ''units'' (PStr ''metric''))) s)))"
proof -
  have total: "\<exists>r. fst (handle_call_tool self tool_name arguments s) = Inr r"
  proof (cases "call_tool_body self tool_name arguments s")
    case (Pair r s'')
    then show ?thesis
      by (cases r) (simp_all add: handle_call_tool_def)
  qed
  have unknown: "tool_name \<notin> set (map name handle_list_tools) \<longrightarrow>
        call_tool_body self tool_name arguments s =
          (Inl (ValueError (''Unknown tool: '' @ tool_name)), s)"
    by (simp add: tool_names body_unknown)
  have missing: "tool_name \<in> set (map name handle_list_tools) \<and> arguments ''location'' = None \<longrightarrow>
        call_tool_body self tool_name arguments s = (Inl (KeyError ''location''), s)"
    using body_missing_location [of tool_name arguments self s] by (simp add: tool_names)
  have real: "call_tool_body WeatherServer tool_name arguments s = (Inl e, s') \<longrightarrow>
        s' = s \<and>
        ((tool_name \<notin> set (map name handle_list_tools) \<and>
            e = ValueError (''Unknown tool: '' @ tool_name)) \<or>
         (tool_name \<in> set (map name handle_list_tools) \<and> arguments ''location'' = None \<and>
            e = KeyError ''location''))"
    using real_body_raises_before_entry by blast
  have caught: "arguments ''location'' = Some l \<and>
       py_range (dict_get arguments ''days'' (PInt 3)) = Inl e \<longrightarrow>
        handle_call_tool WeatherServer ''get_weather_forecast'' arguments s =
          (Inr [TextContent ''text'' (''Failed to fetch forecast data: '' @ str_exn e)],
           logger_error (''Error fetching forecast data: '' @ str_exn e)
             (enter (Weather_forecast l (dict_get arguments ''days'' (PInt 3))
                       (dict_get arguments ''units'' (PStr ''metric''))) s))"
    using real_forecast_caught by blast
  have raised: "call_tool_body self tool_name arguments s = (Inl e, s') \<longrightarrow>
        handle_call_tool self tool_name arguments s =
          (Inr [TextContent ''text'' (''Error: '' @ str_exn e)],
           logger_error (''Error calling tool '' @ tool_name @ '': '' @ str_exn e) s')"
    by (simp add: handle_raised)
  have current: "arguments ''location'' = Some l \<and>
       get_current_weather_method self l (dict_get arguments ''units'' (PStr ''metric''))
         (enter (Current_weather l (dict_get arguments ''units'' (PStr ''metric''))) s)
         = (Inl e, s') \<longrightarrow>
        call_tool_body self ''get_current_weather'' arguments s = (Inl e, s')"
    by (simp add: body_current)
  have forecast: "arguments ''location'' = Some l \<and>
       get_weather_forecast_method self l (dict_get arguments ''days'' (PInt 3))
         (dict_get arguments ''units'' (PStr ''metric''))
         (enter (Weather_forecast l (dict_get arguments ''days'' (PInt 3))
                   (dict_get arguments ''units'' (PStr ''metric''))) s)
         = (Inl e, s') \<longrightarrow>
        call_tool_body self ''get_weather_forecast'' arguments s = (Inl e, s')"
    by (simp add: body_forecast)
  from total raised unknown missing current forecast real caught show ?thesis
    by (intro conjI)
qed

theorem handle_call_tool_total_witness:
  "handle_call_tool WeatherServer ''missing'' Map.empty no_effects =
     (Inr [TextContent ''text'' ''Error: Unknown tool: missing''],
      logger_error ''Error calling tool missing: Unknown tool: missing'' no_effects)
   \<and> handle_call_tool WeatherServer ''get_current_weather'' Map.empty no_effects =
     (Inr [TextContent ''text'' (''Error: '' @ [CHR 0x27] @ ''location'' @ [CHR 0x27])],
      logger_error (''Error calling tool get_current_weather: '' @ [CHR 0x27] @ ''location'' @ [CHR 0x27])
        no_effects)
   \<and> fst (handle_call_tool (raising_server (TypeError ''bad'')) ''get_current_weather''
            [''location'' \<mapsto> PStr ''Oslo''] no_effects) =
       Inr [TextContent ''text'' ''Error: bad'']
   \<and> fst (handle_call_tool (raising_server (TypeError ''bad'')) ''get_weather_forecast''
            [''location'' \<mapsto> PStr ''Oslo''] no_effects) =
       Inr [TextContent ''text'' ''Error: bad'']
   \<and> fst (handle_call_tool WeatherServer ''get_weather_forecast''
            [''location'' \<mapsto> PStr ''Oslo'', ''days'' \<mapsto> PNone] no_effects) =
       Inr [TextContent ''text''
             (''Failed to fetch forecast data: '' @ [CHR 0x27] @ ''NoneType'' @ [CHR 0x27] @
              '' object cannot be interpreted as an integer'')]"
proof -
  let ?a = "[''location'' \<mapsto> PStr ''Oslo'']"
  let ?b = "[''location'' \<mapsto> PStr ''Oslo'', ''days'' \<mapsto> PNone]"
  let ?r = "raising_server (TypeError ''bad'')"
  let ?e = "TypeError ([CHR 0x27] @ ''NoneType'' @ [CHR 0x27] @
              '' object cannot be interpreted as an integer'')"
  have m: "''missing'' \<notin> set (map name handle_list_tools)"
    and c: "''get_current_weather'' \<in> set (map name handle_list_tools)"
    by (simp_all add: tool_names)
  have l: "?a ''location'' = Some (PStr ''Oslo'')"
    and l': "?b ''location'' = Some (PStr ''Oslo'')"
    by simp_all
  have u: "dict_get ?a ''units'' (PStr ''metric'') = PStr ''metric''"
    and d: "dict_get ?a ''days'' (PInt 3) = PInt 3"
    and d': "py_range (dict_get ?b ''days'' (PInt 3)) = Inl ?e"
    by (simp_all add: dict_get_def)
  have 1: "handle_call_tool WeatherServer ''missing'' Map.empty no_effects =
     (Inr [TextContent ''text'' ''Error: Unknown tool: missing''],
      logger_error ''Error calling tool missing: Unknown tool: missing'' no_effects)"
    using m
      handle_call_tool_total
        [where self = WeatherServer and tool_name = "''missing''" and arguments = Map.empty
           and s = no_effects and e = "ValueError ''Unknown tool: missing''" and s' = no_effects]
    by simp
  have 2: "handle_call_tool WeatherServer ''get_current_weather'' Map.empty no_effects =
     (Inr [TextContent ''text'' (''Error: '' @ [CHR 0x27] @ ''location'' @ [CHR 0x27])],
      logger_error (''Error calling tool get_current_weather: '' @ [CHR 0x27] @ ''location'' @ [CHR 0x27])
        no_effects)"
    using c
      handle_call_tool_total
        [where self = WeatherServer and tool_name = "''get_current_weather''"
           and arguments = Map.empty and s = no_effects and e = "KeyError ''location''"
           and s' = no_effects]
    by (simp add: repr_location)
  have 3: "fst (handle_call_tool ?r ''get_current_weather'' ?a no_effects) =
       Inr [TextContent ''text'' ''Error: bad'']"
    using l
      handle_call_tool_total
        [where self = ?r and tool_name = "''get_current_weather''" and arguments = ?a
           and l = "PStr ''Oslo''" and s = no_effects and e = "TypeError ''bad''"
           and s' = "enter (Current_weather (PStr ''Oslo'') (PStr ''metric'')) no_effects"]
    by (simp add: u d raising_server_def)
  have 4: "fst (handle_call_tool ?r ''get_weather_forecast'' ?a no_effects) =
       Inr [TextContent ''text'' ''Error: bad'']"
    using l
      handle_call_tool_total
        [where self = ?r and tool_name = "''get_weather_forecast''" and arguments = ?a
           and l = "PStr ''Oslo''" and s = no_effects and e = "TypeError ''bad''"
           and s' = "enter (Weather_forecast (PStr ''Oslo'') (PInt 3) (PStr ''metric'')) no_effects"]
    by (simp add: u d raising_server_def)
  have 5: "fst (handle_call_tool WeatherServer ''get_weather_forecast'' ?b no_effects) =
       Inr [TextContent ''text''
             (''Failed to fetch forecast data: '' @ [CHR 0x27] @ ''NoneType'' @ [CHR 0x27] @
              '' object cannot be interpreted as an integer'')]"
    using l' d'
      handle_call_tool_total
        [where arguments = ?b and l = "PStr ''Oslo''" and s = no_effects and e = ?e]
    by simp
  show ?thesis
    using 1 2 3 4 5 by simp
qed

section \<open>Declared constraints\<close>

lemma body_ignores_other_keys:
  "k \<noteq> ''location'' \<Longrightarrow> k \<noteq> ''days'' \<Longrightarrow> k \<noteq> ''units'' \<Longrightarrow>
   call_tool_body self tool_name (arguments(k \<mapsto> v)) s =
   call_tool_body self tool_name arguments s"
  by (cases "arguments ''location''")
     (simp_all add: call_tool_body_def subscript_def dict_get_def)

lemma body_current_ignores_other_keys:
  "k \<noteq> ''location'' \<Longrightarrow> k \<noteq> ''units'' \<Longrightarrow>
   call_tool_body self ''get_current_weather'' (arguments(k \<mapsto> v)) s =
   call_tool_body self ''get_current_weather'' arguments s"
  by (cases "arguments ''location''")
     (simp_all add: call_tool_body_def subscript_def dict_get_def)

lemma declared_of_tools:
  "map (\<lambda>t. (name t, declared_properties t)) handle_list_tools =
     [(''get_current_weather'', [(''location'', location_schema), (''units'', units_schema)]),
      (''get_weather_forecast'',
       [(''location'', location_schema), (''days'', days_schema), (''units'', units_schema)])]"
  by (simp add: handle_list_tools_def declared_properties_def)

lemma declared_cases:
  "t \<in> set handle_list_tools \<Longrightarrow>
   (name t = ''get_current_weather'' \<and>
    declared_properties t = [(''location'', location_schema), (''units'', units_schema)]) \<or>
   (name t = ''get_weather_forecast'' \<and>
    declared_properties t =
      [(''location'', location_schema), (''days'', days_schema), (''units'', units_schema)])"
  by (auto simp add: handle_list_tools_def declared_properties_def)

lemma satisfies_location: "satisfies location_schema v \<longleftrightarrow> (\<exists>x. v = PStr x)"
  by (cases v) (simp_all add: satisfies_def location_schema_def has_type_def)

lemma satisfies_units:
  "satisfies units_schema v \<longleftrightarrow> v \<in> {PStr ''metric'', PStr ''imperial'', PStr ''kelvin''}"
  by (cases v) (auto simp add: satisfies_def units_schema_def has_type_def)

lemma satisfies_days: "satisfies days_schema v \<longleftrightarrow> (\<exists>i. v = PInt i \<and> 1 \<le> i \<and> i \<le> 5)"
  by (cases v) (auto simp add: satisfies_def days_schema_def has_type_def)

lemma violating_undeclared:
  "k \<notin> fst ` set (declared_properties t) \<Longrightarrow>
   violating t (arguments(k \<mapsto> v)) = violating t arguments"
proof -
  assume k: "k \<notin> fst ` set (declared_properties t)"
  have "filter (\<lambda>(p, d). case (arguments(k \<mapsto> v)) p of
                            None \<Rightarrow> False | Some x \<Rightarrow> \<not> satisfies d x)
               (declared_properties t) =
        filter (\<lambda>(p, d). case arguments p of None \<Rightarrow> False | Some x \<Rightarrow> \<not> satisfies d x)
               (declared_properties t)"
    using k by (intro filter_cong) (auto simp add: image_iff)
  then show ?thesis
    by (simp add: violating_def)
qed

lemma offending_undeclared:
  "t \<in> set handle_list_tools \<Longrightarrow> k \<notin> fst ` set (declared_properties t) \<Longrightarrow>
   offending t (arguments(k \<mapsto> v)) = offending t arguments"
proof -
  assume t: "t \<in> set handle_list_tools" and k: "k \<notin> fst ` set (declared_properties t)"
  have "k \<noteq> ''location''"
    using declared_cases [OF t] k by auto
  then show ?thesis
    by (simp add: offending_def missing_required_location [OF t] violating_undeclared [OF k])
qed

lemma handle_undeclared:
  "t \<in> set handle_list_tools \<Longrightarrow> k \<notin> fst ` set (declared_properties t) \<Longrightarrow>
   handle_call_tool self (name t) (arguments(k \<mapsto> v)) s =
   handle_call_tool self (name t) arguments s"
proof -
  assume t: "t \<in> set handle_list_tools" and k: "k \<notin> fst ` set (declared_properties t)"
  have "call_tool_body self (name t) (arguments(k \<mapsto> v)) s =
        call_tool_body self (name t) arguments s"
    using declared_cases [OF t] k
    by (auto simp add: body_current_ignores_other_keys body_ignores_other_keys)
  then show ?thesis
    by (simp add: handle_call_tool_def)
qed

lemma violation_is_offending:
  "(p, d) \<in> set (declared_properties t) \<Longrightarrow> arguments p = Some v \<Longrightarrow> \<not> satisfies d v \<Longrightarrow>
   p \<in> set (offending t arguments)"
  by (force simp add: offending_def violating_def)

lemma call_tool_offending:
  "t \<in> set handle_list_tools \<Longrightarrow> offending t arguments = q # qs \<Longrightarrow>
   call_tool self (name t) arguments s = (Error (''InvalidArguments: '' @ q), s)"
  by (simp add: call_tool_invalid validate_listed invalid_arguments_def)

text \<open>
  Claim C5: a call whose arguments hold a property that violates its declared constraint
  is answered by an InvalidArguments error naming the offending field, and the handler is
  not invoked; unknown extra properties are permitted and ignored. For every tool \<open>t\<close>
  of \<open>handle_list_tools\<close>, every property \<open>p\<close> its schema declares and every value
  given for \<open>p\<close> that does not satisfy the declared schema: the call is answered,
  whatever the server object, by the error Response \<open>InvalidArguments: q\<close> for an
  offending field \<open>q\<close>, which is \<open>p\<close> when \<open>p\<close> is the only one, and the state is
  the one before the call. The declared schemas are satisfied exactly by a string for
  \<open>location\<close>, by one of the three strings of the enum for \<open>units\<close>, and by an
  integer from 1 to 5 for \<open>days\<close>. A property the schema of \<open>t\<close> does not declare
  changes neither the Response nor the effects.
\<close>

theorem constraint_violation_rejected:
  "(t \<in> set handle_list_tools \<and> (p, d) \<in> set (declared_properties t) \<and>
    arguments p = Some v \<and> \<not> satisfies d v \<longrightarrow>
      (\<exists>q \<in> set (offending t arguments).
          call_tool self (name t) arguments s = (Error (''InvalidArguments: '' @ q), s))
      \<and> (offending t arguments = [p] \<longrightarrow>
          call_tool self (name t) arguments s = (Error (''InvalidArguments: '' @ p), s))
      \<and> is_error (fst (call_tool self (name t) arguments s))
      \<and> snd (call_tool self (name t) arguments s) = s)
   \<and> map (\<lambda>t. (name t, declared_properties t)) handle_list_tools =
       [(''get_current_weather'', [(''location'', location_schema), (''units'', units_schema)]),
        (''get_weather_forecast'',
         [(''location'', location_schema), (''days'', days_schema), (''units'', units_schema)])]
   \<and> (satisfies location_schema v \<longleftrightarrow> (\<exists>x. v = PStr x))
   \<and> (satisfies units_schema v \<longleftrightarrow>
        v \<in> {PStr ''metric'', PStr ''imperial'', PStr ''kelvin''})
   \<and> (satisfies days_schema v \<longleftrightarrow> (\<exists>i. v = PInt i \<and> 1 \<le> i \<and> i \<le> 5))
   \<and> (t \<in> set handle_list_tools \<and> k \<notin> fst ` set (declared_properties t) \<longrightarrow>
        validate (name t) (arguments(k \<mapsto> v)) = validate (name t) arguments
        \<and> call_tool self (name t) (arguments(k \<mapsto> v)) s =
            call_tool self (name t) arguments s)"
proof -
  have rejected:
    "(\<exists>q \<in> set (offending t arguments).
          call_tool self (name t) arguments s = (Error (''InvalidArguments: '' @ q), s))
      \<and> (offending t arguments = [p] \<longrightarrow>
          call_tool self (name t) arguments s = (Error (''InvalidArguments: '' @ p), s))
      \<and> is_error (fst (call_tool self (name t) arguments s))
      \<and> snd (call_tool self (name t) arguments s) = s"
    if h: "t \<in> set handle_list_tools \<and> (p, d) \<in> set (declared_properties t) \<and>
      arguments p = Some v \<and> \<not> satisfies d v"
  proof -
    from h have t: "t \<in> set handle_list_tools"
      by simp
    from h have "p \<in> set (offending t arguments)"
      using violation_is_offending by blast
    then obtain q qs where o: "offending t arguments = q # qs"
      by (cases "offending t arguments") auto
    have c: "call_tool self (name t) arguments s = (Error (''InvalidArguments: '' @ q), s)"
      using call_tool_offending [OF t o] .
    show ?thesis
      using c o by auto
  qed
  have ignored:
    "validate (name t) (arguments(k \<mapsto> v)) = validate (name t) arguments
        \<and> call_tool self (name t) (arguments(k \<mapsto> v)) s =
            call_tool self (name t) arguments s"
    if h: "t \<in> set handle_list_tools \<and> k \<notin> fst ` set (declared_properties t)"
  proof -
    from h have t: "t \<in> set handle_list_tools"
      and k: "k \<notin> fst ` set (declared_properties t)"
      by simp_all
    have v: "validate (name t) (arguments(k \<mapsto> v)) = validate (name t) arguments"
      by (simp add: validate_listed [OF t] offending_undeclared [OF t k])
    show ?thesis
      unfolding call_tool_def v handle_undeclared [OF t k] by simp
  qed
  from rejected ignored show ?thesis
    by (simp add: declared_of_tools satisfies_location satisfies_units satisfies_days)
qed

theorem constraint_violation_rejected_witness:
  "call_tool WeatherServer ''get_weather_forecast''
       [''location'' \<mapsto> PStr ''London'', ''days'' \<mapsto> PInt 7] no_effects =
     (Error ''InvalidArguments: days'', no_effects)
   \<and> call_tool WeatherServer ''get_current_weather''
       [''location'' \<mapsto> PStr ''London'', ''units'' \<mapsto> PStr ''celsius''] no_effects =
     (Error ''InvalidArguments: units'', no_effects)
   \<and> call_tool WeatherServer ''get_current_weather''
       [''location'' \<mapsto> PStr ''London'', ''verbose'' \<mapsto> PBool True] no_effects =
     call_tool WeatherServer ''get_current_weather'' [''location'' \<mapsto> PStr ''London'']
       no_effects
   \<and> call_tool WeatherServer ''get_current_weather''
       [''location'' \<mapsto> PStr ''London'', ''days'' \<mapsto> PInt 7] no_effects =
     call_tool WeatherServer ''get_current_weather'' [''location'' \<mapsto> PStr ''London'']
       no_effects"
proof -
  let ?f = "last handle_list_tools"
  let ?c = "hd handle_list_tools"
  let ?a = "[''location'' \<mapsto> PStr ''London'', ''days'' \<mapsto> PInt 7]"
  let ?b = "[''location'' \<mapsto> PStr ''London'', ''units'' \<mapsto> PStr ''celsius'']"
  let ?l = "[''location'' \<mapsto> PStr ''London'']"
  have t: "?f \<in> set handle_list_tools" "?c \<in> set handle_list_tools"
    by (simp_all add: handle_list_tools_def)
  have n: "name ?f = ''get_weather_forecast''" "name ?c = ''get_current_weather''"
    by (simp_all add: handle_list_tools_def)
  have p: "declared_properties ?f =
      [(''location'', location_schema), (''days'', days_schema), (''units'', units_schema)]"
    "declared_properties ?c = [(''location'', location_schema), (''units'', units_schema)]"
    by (simp_all add: handle_list_tools_def declared_properties_def)
  have r: "required_properties ?f = [PStr ''location'']"
    "required_properties ?c = [PStr ''location'']"
    by (simp_all add: handle_list_tools_def required_properties_def)
  have s: "\<not> satisfies days_schema (PInt 7)" "\<not> satisfies units_schema (PStr ''celsius'')"
    "satisfies location_schema (PStr ''London'')"
    by (simp_all add: satisfies_days satisfies_units satisfies_location)
  have o: "offending ?f ?a = [''days'']" "offending ?c ?b = [''units'']"
    by (simp_all add: offending_def missing_required_def violating_def p r s)
  have 1: "call_tool WeatherServer ''get_weather_forecast'' ?a no_effects =
     (Error ''InvalidArguments: days'', no_effects)"
    using t s o
      constraint_violation_rejected
        [where t = ?f and p = "''days''" and d = days_schema and arguments = ?a
           and v = "PInt 7" and self = WeatherServer and s = no_effects and k = "''days''"]
    by (simp add: n p)
  have 2: "call_tool WeatherServer ''get_current_weather'' ?b no_effects =
     (Error ''InvalidArguments: units'', no_effects)"
    using t s o
      constraint_violation_rejected
        [where t = ?c and p = "''units''" and d = units_schema and arguments = ?b
           and v = "PStr ''celsius''" and self = WeatherServer and s = no_effects
           and k = "''units''"]
    by (simp add: n p)
  have 3: "call_tool WeatherServer ''get_current_weather''
       [''location'' \<mapsto> PStr ''London'', ''verbose'' \<mapsto> PBool True] no_effects =
     call_tool WeatherServer ''get_current_weather'' ?l no_effects"
    using t
      constraint_violation_rejected
        [where t = ?c and k = "''verbose''" and arguments = ?l and v = "PBool True"
           and self = WeatherServer and s = no_effects and p = "''units''"
           and d = units_schema]
    by (simp add: n p)
  have 4: "call_tool WeatherServer ''get_current_weather''
       [''location'' \<mapsto> PStr ''London'', ''days'' \<mapsto> PInt 7] no_effects =
     call_tool WeatherServer ''get_current_weather'' ?l no_effects"
    using t
      constraint_violation_rejected
        [where t = ?c and k = "''days''" and arguments = ?l and v = "PInt 7"
           and self = WeatherServer and s = no_effects and p = "''units''"
           and d = units_schema]
    by (simp add: n p)
  show ?thesis
    using 1 2 3 4 by simp
qed

section \<open>Defaults of optional properties\<close>











section \<open>Listing tools and resources\<close>

lemma dispatch_listing:
  "is_listing req \<Longrightarrow> dispatch self req sess = (listing_reply req, sess)"
  by (cases req) simp_all

lemma serve_listing:
  "list_all is_listing reqs \<Longrightarrow> serve self reqs sess = (map listing_reply reqs, sess)"
  by (induction reqs) (simp_all add: dispatch_listing)

text \<open>
  Claim C6: in every sequence of \<open>list_tools\<close> and \<open>list_resources\<close> requests, each
  request gets the same reply, in registration order, with no side effect. Serving any
  such sequence, from any session and with any server object, answers every
  \<open>tools/list\<close> with the list of \<open>handle_list_tools\<close> and every
  \<open>resources/list\<close> with the list of \<open>handle_list_resources\<close>, and leaves the session
  as it was; the two lists are the tools \<open>get_current_weather\<close>,
  \<open>get_weather_forecast\<close> and the resources \<open>weather://current\<close>,
  \<open>weather://forecast\<close>, in this order.
\<close>

theorem listing_is_stable:
  "(list_all is_listing reqs \<longrightarrow> serve self reqs sess = (map listing_reply reqs, sess))
   \<and> listing_reply Tools_list = Tools_reply handle_list_tools
   \<and> listing_reply Resources_list = Resources_reply handle_list_resources
   \<and> map name handle_list_tools = [''get_current_weather'', ''get_weather_forecast'']
   \<and> map uri handle_list_resources = [''weather://current'', ''weather://forecast'']"
  by (simp add: serve_listing tool_names resource_uris)

theorem listing_is_stable_witness:
  "list_all is_listing [Tools_list, Resources_list, Tools_list]
   \<and> serve WeatherServer [Tools_list, Resources_list, Tools_list] (start_session run_options) =
     ([Tools_reply handle_list_tools, Resources_reply handle_list_resources,
       Tools_reply handle_list_tools], start_session run_options)"
proof -
  have h: "list_all is_listing [Tools_list, Resources_list, Tools_list]"
    by simp
  show ?thesis
    using h
      listing_is_stable
        [where reqs = "[Tools_list, Resources_list, Tools_list]" and self = WeatherServer
           and sess = "start_session run_options"]
    by simp
qed

section \<open>The initialize Response\<close>

lemma dispatch_negotiated: "negotiated (snd (dispatch self req sess)) = negotiated sess"
  by (cases req) (simp_all split: prod.splits)

lemma serve_negotiated: "negotiated (snd (serve self reqs sess)) = negotiated sess"
proof (induction reqs arbitrary: sess)
  case Nil
  show ?case by simp
next
  case (Cons req reqs)
  obtain r sess' where d: "dispatch self req sess = (r, sess')"
    by (cases "dispatch self req sess")
  obtain rs sess'' where s: "serve self reqs sess' = (rs, sess'')"
    by (cases "serve self reqs sess'")
  have "negotiated sess'' = negotiated sess'"
    using Cons.IH [of sess'] s by simp
  moreover have "negotiated sess' = negotiated sess"
    using dispatch_negotiated [of self req sess] d by simp
  ultimately show ?case
    using d s by simp
qed

text \<open>
  Claim C8: the initialize Response carries the server identity \<open>weather-server\<close>, the
  version \<open>1.0.0\<close> and the capabilities built in \<open>WeatherServer.run\<close>: tools and
  resources are advertised, each with \<open>listChanged\<close> false, and \<open>subscribe\<close> is
  false. The session starts with this capability value and still holds it after serving
  any sequence of requests, with any server object.
\<close>

theorem initialize_advertises_fixed_capabilities:
  "server_name run_options = ''weather-server''
   \<and> server_version run_options = ''1.0.0''
   \<and> capabilities run_options =
       \<lparr>resources = Some \<lparr>listChanged = False, subscribe = False\<rparr>,
        tools = Some \<lparr>listChanged = False\<rparr>\<rparr>
   \<and> server_identity (initialize run_options) = ''weather-server''
   \<and> version (initialize run_options) = ''1.0.0''
   \<and> tools (advertised (initialize run_options)) = Some \<lparr>listChanged = False\<rparr>
   \<and> resources (advertised (initialize run_options)) =
       Some \<lparr>listChanged = False, subscribe = False\<rparr>
   \<and> negotiated (start_session run_options) = advertised (initialize run_options)
   \<and> negotiated (snd (serve self reqs (start_session run_options))) =
       advertised (initialize run_options)"
  by (simp add: serve_negotiated) (simp add: initialize_def run_options_def start_session_def)

section \<open>Unit systems\<close>

lemma forecast_loop_concat:
  "forecast_loop units ixs acc = acc @ concat (map (forecast_day units) ixs)"
  by (induction ixs arbitrary: acc) simp_all

lemma forecast_day_imperial:
  "units \<noteq> PStr ''metric'' \<Longrightarrow>
   forecast_day units =
     (\<lambda>i. calendar @ '' Day '' @ str_int (i + 1) @ '':\<newline>'' @
          ''   '' @ thermometer @ '' High: '' @ str_int (77 + i * 2) @ deg @ ''F'' @
            '', Low: '' @ str_int (59 + i * 2) @ deg @ ''F'' @ ''\<newline>'' @
          ''   '' @ cloud @ '' Conditions: '' @ (if i mod 2 = 0 then ''Sunny'' else ''Cloudy'') @
            ''\<newline>'' @
          ''   '' @ rain_cloud @ '' Precipitation: '' @ str_int (10 + i * 5) @ ''%\<newline>\<newline>'')"
  by (rule ext) (simp add: forecast_day_def temp_high_def temp_low_def temp_unit_def is_metric_def)

lemma forecast_day_metric:
  "forecast_day (PStr ''metric'') =
     (\<lambda>i. calendar @ '' Day '' @ str_int (i + 1) @ '':\<newline>'' @
          ''   '' @ thermometer @ '' High: '' @ str_int (25 + i) @ deg @ ''C'' @
            '', Low: '' @ str_int (15 + i) @ deg @ ''C'' @ ''\<newline>'' @
          ''   '' @ cloud @ '' Conditions: '' @ (if i mod 2 = 0 then ''Sunny'' else ''Cloudy'') @
            ''\<newline>'' @
          ''   '' @ rain_cloud @ '' Precipitation: '' @ str_int (10 + i * 5) @ ''%\<newline>\<newline>'')"
  by (rule ext) (simp add: forecast_day_def temp_high_def temp_low_def temp_unit_def is_metric_def)

lemma forecast_returned:
  "py_range days = Inr ixs \<Longrightarrow>
   get_weather_forecast location days units s =
     (Inr [TextContent ''text''
            (''Weather Forecast for '' @ py_str location @ '' ('' @ py_str days @
             '' days):\<newline>\<newline>'' @ concat (map (forecast_day units) ixs))], s)"
  by (simp add: get_weather_forecast_def forecast_loop_concat forecast_header_def)

text \<open>
  Claim C10: the two weather methods render two unit systems only. For every \<open>units\<close>
  value other than the string \<open>metric\<close>, among them \<open>kelvin\<close>, which the declared
  enum permits, \<open>get_current_weather\<close> reports the temperature 72 degrees F and the
  wind speed 6 mph, and \<open>get_weather_forecast\<close> returns, for the indices \<open>range(days)\<close>
  gives, the header followed by one block for each index \<open>i\<close>, with the high
  \<open>77 + 2i\<close> and the low \<open>59 + 2i\<close> both in degrees F; it is what the method
  returns for \<open>imperial\<close>. For \<open>metric\<close> the texts carry 22 degrees C and 10 km/h,
  and the high \<open>25 + i\<close> and the low \<open>15 + i\<close> in degrees C. So whatever \<open>units\<close>
  is, every temperature is rendered in degrees C or in degrees F, never in kelvin.
\<close>

theorem only_two_unit_systems:
  "(units \<noteq> PStr ''metric'' \<longrightarrow>
      get_current_weather location units s =
        (Inr [TextContent ''text''
               (''Current Weather for '' @ py_str location @ '':\<newline>'' @
                thermometer @ '' Temperature: '' @ ''72'' @ deg @ ''F'' @ ''\<newline>'' @
                cloud @ '' Conditions: Partly cloudy\<newline>'' @
                droplet @ '' Humidity: 65%\<newline>'' @
                dash @ '' Wind Speed: '' @ ''6 mph'')], s)
      \<and> (py_range days = Inr ixs \<longrightarrow>
          get_weather_forecast location days units s =
            (Inr [TextContent ''text''
                   (''Weather Forecast for '' @ py_str location @ '' ('' @ py_str days @
                    '' days):\<newline>\<newline>'' @
                    concat (map (\<lambda>i.
                      calendar @ '' Day '' @ str_int (i + 1) @ '':\<newline>'' @
                      ''   '' @ thermometer @ '' High: '' @ str_int (77 + i * 2) @ deg @ ''F'' @
                        '', Low: '' @ str_int (59 + i * 2) @ deg @ ''F'' @ ''\<newline>'' @
                      ''   '' @ cloud @ '' Conditions: '' @
                        (if i mod 2 = 0 then ''Sunny'' else ''Cloudy'') @ ''\<newline>'' @
                      ''   '' @ rain_cloud @ '' Precipitation: '' @ str_int (10 + i * 5) @
                        ''%\<newline>\<newline>'') ixs))], s))
      \<and> get_weather_forecast location days units s =
          get_weather_forecast location days (PStr ''imperial'') s
      \<and> temp_unit units = deg @ ''F''
      \<and> forecast_day units i =
          calendar @ '' Day '' @ str_int (i + 1) @ '':\<newline>'' @
          ''   '' @ thermometer @ '' High: '' @ str_int (77 + i * 2) @ deg @ ''F'' @
            '', Low: '' @ str_int (59 + i * 2) @ deg @ ''F'' @ ''\<newline>'' @
          ''   '' @ cloud @ '' Conditions: '' @ (if i mod 2 = 0 then ''Sunny'' else ''Cloudy'') @
            ''\<newline>'' @
          ''   '' @ rain_cloud @ '' Precipitation: '' @ str_int (10 + i * 5) @ ''%\<newline>\<newline>'')
   \<and> get_current_weather location (PStr ''metric'') s =
        (Inr [TextContent ''text''
               (''Current Weather for '' @ py_str location @ '':\<newline>'' @
                thermometer @ '' Temperature: '' @ ''22'' @ deg @ ''C'' @ ''\<newline>'' @
                cloud @ '' Conditions: Partly cloudy\<newline>'' @
                droplet @ '' Humidity: 65%\<newline>'' @
                dash @ '' Wind Speed: '' @ ''10 km/h'')], s)
   \<and> (py_range days = Inr ixs \<longrightarrow>
        get_weather_forecast location days (PStr ''metric'') s =
          (Inr [TextContent ''text''
                 (''Weather Forecast for '' @ py_str location @ '' ('' @ py_str days @
                  '' days):\<newline>\<newline>'' @
                  concat (map (\<lambda>i.
                    calendar @ '' Day '' @ str_int (i + 1) @ '':\<newline>'' @
                    ''   '' @ thermometer @ '' High: '' @ str_int (25 + i) @ deg @ ''C'' @
                      '', Low: '' @ str_int (15 + i) @ deg @ ''C'' @ ''\<newline>'' @
                    ''   '' @ cloud @ '' Conditions: '' @
                      (if i mod 2 = 0 then ''Sunny'' else ''Cloudy'') @ ''\<newline>'' @
                    ''   '' @ rain_cloud @ '' Precipitation: '' @ str_int (10 + i * 5) @
                      ''%\<newline>\<newline>'') ixs))], s))
   \<and> (py_range days = Inl e \<longrightarrow>
        get_weather_forecast location days units s =
          (Inr [TextContent ''text'' (''Failed to fetch forecast data: '' @ str_exn e)],
           logger_error (''Error fetching forecast data: '' @ str_exn e) s))
   \<and> (temperature units = ''22'' @ deg @ ''C'' \<or> temperature units = ''72'' @ deg @ ''F'')
   \<and> (temp_unit units = deg @ ''C'' \<or> temp_unit units = deg @ ''F'')"
proof -
  have current: "get_current_weather location units s =
        (Inr [TextContent ''text''
               (''Current Weather for '' @ py_str location @ '':\<newline>'' @
                thermometer @ '' Temperature: '' @ ''72'' @ deg @ ''F'' @ ''\<newline>'' @
                cloud @ '' Conditions: Partly cloudy\<newline>'' @
                droplet @ '' Humidity: 65%\<newline>'' @
                dash @ '' Wind Speed: '' @ ''6 mph'')], s)"
    if "units \<noteq> PStr ''metric''"
    using that
    by (simp add: get_current_weather_def weather_text_def temperature_def wind_speed_def
        is_metric_def)
  have forecast: "get_weather_forecast location days units s =
            (Inr [TextContent ''text''
                   (''Weather Forecast for '' @ py_str location @ '' ('' @ py_str days @
                    '' days):\<newline>\<newline>'' @
                    concat (map (\<lambda>i.
                      calendar @ '' Day '' @ str_int (i + 1) @ '':\<newline>'' @
                      ''   '' @ thermometer @ '' High: '' @ str_int (77 + i * 2) @ deg @ ''F'' @
                        '', Low: '' @ str_int (59 + i * 2) @ deg @ ''F'' @ ''\<newline>'' @
                      ''   '' @ cloud @ '' Conditions: '' @
                        (if i mod 2 = 0 then ''Sunny'' else ''Cloudy'') @ ''\<newline>'' @
                      ''   '' @ rain_cloud @ '' Precipitation: '' @ str_int (10 + i * 5) @
                        ''%\<newline>\<newline>'') ixs))], s)"
    if "units \<noteq> PStr ''metric''" and "py_range days = Inr ixs"
    unfolding forecast_returned [OF that(2)] forecast_day_imperial [OF that(1)] ..
  have same: "get_weather_forecast location days units s =
          get_weather_forecast location days (PStr ''imperial'') s"
    if u: "units \<noteq> PStr ''metric''"
  proof (cases "py_range days")
    case (Inl a)
    then show ?thesis
      by (simp add: get_weather_forecast_def)
  next
    case (Inr a)
    have i: "PStr ''imperial'' \<noteq> PStr ''metric''"
      by simp
    show ?thesis
      unfolding forecast_returned [OF Inr] forecast_day_imperial [OF u]
        forecast_day_imperial [OF i] ..
  qed
  have unit: "temp_unit units = deg @ ''F''" if "units \<noteq> PStr ''metric''"
    using that by (simp add: temp_unit_def is_metric_def)
  have day: "forecast_day units i =
          calendar @ '' Day '' @ str_int (i + 1) @ '':\<newline>'' @
          ''   '' @ thermometer @ '' High: '' @ str_int (77 + i * 2) @ deg @ ''F'' @
            '', Low: '' @ str_int (59 + i * 2) @ deg @ ''F'' @ ''\<newline>'' @
          ''   '' @ cloud @ '' Conditions: '' @ (if i mod 2 = 0 then ''Sunny'' else ''Cloudy'') @
            ''\<newline>'' @
          ''   '' @ rain_cloud @ '' Precipitation: '' @ str_int (10 + i * 5) @ ''%\<newline>\<newline>''"
    if "units \<noteq> PStr ''metric''"
    unfolding forecast_day_imperial [OF that] ..
  have current_metric: "get_current_weather location (PStr ''metric'') s =
        (Inr [TextContent ''text''
               (''Current Weather for '' @ py_str location @ '':\<newline>'' @
                thermometer @ '' Temperature: '' @ ''22'' @ deg @ ''C'' @ ''\<newline>'' @
                cloud @ '' Conditions: Partly cloudy\<newline>'' @
                droplet @ '' Humidity: 65%\<newline>'' @
                dash @ '' Wind Speed: '' @ ''10 km/h'')], s)"
    by (simp add: get_current_weather_def weather_text_def temperature_def wind_speed_def
        is_metric_def)
  have forecast_metric: "get_weather_forecast location days (PStr ''metric'') s =
          (Inr [TextContent ''text''
                 (''Weather Forecast for '' @ py_str location @ '' ('' @ py_str days @
                  '' days):\<newline>\<newline>'' @
                  concat (map (\<lambda>i.
                    calendar @ '' Day '' @ str_int (i + 1) @ '':\<newline>'' @
                    ''   '' @ thermometer @ '' High: '' @ str_int (25 + i) @ deg @ ''C'' @
                      '', Low: '' @ str_int (15 + i) @ deg @ ''C'' @ ''\<newline>'' @
                    ''   '' @ cloud @ '' Conditions: '' @
                      (if i mod 2 = 0 then ''Sunny'' else ''Cloudy'') @ ''\<newline>'' @
                    ''   '' @ rain_cloud @ '' Precipitation: '' @ str_int (10 + i * 5) @
                      ''%\<newline>\<newline>'') ixs))], s)"
    if "py_range days = Inr ixs"
    unfolding forecast_returned [OF that] forecast_day_metric ..
  have failed: "get_weather_forecast location days units s =
          (Inr [TextContent ''text'' (''Failed to fetch forecast data: '' @ str_exn e)],
           logger_error (''Error fetching forecast data: '' @ str_exn e) s)"
    if "py_range days = Inl e"
    using that by (simp add: get_weather_forecast_def)
  have two: "temperature units = ''22'' @ deg @ ''C'' \<or> temperature units = ''72'' @ deg @ ''F''"
    "temp_unit units = deg @ ''C'' \<or> temp_unit units = deg @ ''F''"
    by (simp_all add: temperature_def temp_unit_def)
  from current forecast same unit day current_metric forecast_metric failed two
  show ?thesis
    by (intro conjI impI) blast+
qed

theorem only_two_unit_systems_witness:
  "PStr ''kelvin'' \<noteq> PStr ''metric''
   \<and> get_current_weather (PStr ''Oslo'') (PStr ''kelvin'') no_effects =
       (Inr [TextContent ''text''
              (''Current Weather for Oslo:\<newline>'' @
               thermometer @ '' Temperature: 72'' @ deg @ ''F\<newline>'' @
               cloud @ '' Conditions: Partly cloudy\<newline>'' @
               droplet @ '' Humidity: 65%\<newline>'' @
               dash @ '' Wind Speed: 6 mph'')], no_effects)
   \<and> py_range (PInt 2) = Inr [0, 1]
   \<and> get_weather_forecast (PStr ''Oslo'') (PInt 2) (PStr ''kelvin'') no_effects =
       (Inr [TextContent ''text''
              (''Weather Forecast for Oslo (2 days):\<newline>\<newline>'' @
               calendar @ '' Day 1:\<newline>   '' @ thermometer @ '' High: 77'' @ deg @
                 ''F, Low: 59'' @ deg @ ''F\<newline>   '' @ cloud @ '' Conditions: Sunny\<newline>   '' @
                 rain_cloud @ '' Precipitation: 10%\<newline>\<newline>'' @
               calendar @ '' Day 2:\<newline>   '' @ thermometer @ '' High: 79'' @ deg @
                 ''F, Low: 61'' @ deg @ ''F\<newline>   '' @ cloud @ '' Conditions: Cloudy\<newline>   '' @
                 rain_cloud @ '' Precipitation: 15%\<newline>\<newline>'')], no_effects)
   \<and> get_weather_forecast (PStr ''Oslo'') (PInt 2) (PStr ''kelvin'') no_effects =
       get_weather_forecast (PStr ''Oslo'') (PInt 2) (PStr ''imperial'') no_effects
   \<and> temp_unit (PStr ''kelvin'') = deg @ ''F''
   \<and> forecast_day (PStr ''kelvin'') 1 =
       calendar @ '' Day 2:\<newline>   '' @ thermometer @ '' High: 79'' @ deg @ ''F, Low: 61'' @
       deg @ ''F\<newline>   '' @ cloud @ '' Conditions: Cloudy\<newline>   '' @ rain_cloud @
       '' Precipitation: 15%\<newline>\<newline>''"
proof -
  have h: "PStr ''kelvin'' \<noteq> PStr ''metric''"
    by simp
  have r: "py_range (PInt 2) = Inr [0, 1]"
    by (simp add: numeral_2_eq_2 upt_rec)
  have n: "str_int 1 = ''1''" "str_int 2 = ''2''" "str_int 10 = ''10''" "str_int 15 = ''15''"
    "str_int 59 = ''59''" "str_int 61 = ''61''" "str_int 77 = ''77''" "str_int 79 = ''79''"
    by code_simp+
  note t = only_two_unit_systems
        [where units = "PStr ''kelvin''" and location = "PStr ''Oslo''" and s = no_effects
           and days = "PInt 2" and i = 1 and ixs = "[0, 1]", THEN conjunct1, THEN mp, OF h]
  have a: "get_current_weather (PStr ''Oslo'') (PStr ''kelvin'') no_effects =
       (Inr [TextContent ''text''
              (''Current Weather for Oslo:\<newline>'' @
               thermometer @ '' Temperature: 72'' @ deg @ ''F\<newline>'' @
               cloud @ '' Conditions: Partly cloudy\<newline>'' @
               droplet @ '' Humidity: 65%\<newline>'' @
               dash @ '' Wind Speed: 6 mph'')], no_effects)"
    using t [THEN conjunct1] by simp
  have f: "get_weather_forecast (PStr ''Oslo'') (PInt 2) (PStr ''kelvin'') no_effects =
       (Inr [TextContent ''text''
              (''Weather Forecast for Oslo (2 days):\<newline>\<newline>'' @
               calendar @ '' Day 1:\<newline>   '' @ thermometer @ '' High: 77'' @ deg @
                 ''F, Low: 59'' @ deg @ ''F\<newline>   '' @ cloud @ '' Conditions: Sunny\<newline>   '' @
                 rain_cloud @ '' Precipitation: 10%\<newline>\<newline>'' @
               calendar @ '' Day 2:\<newline>   '' @ thermometer @ '' High: 79'' @ deg @
                 ''F, Low: 61'' @ deg @ ''F\<newline>   '' @ cloud @ '' Conditions: Cloudy\<newline>   '' @
                 rain_cloud @ '' Precipitation: 15%\<newline>\<newline>'')], no_effects)"
    using t [THEN conjunct2, THEN conjunct1, THEN mp, OF r] by (simp add: n)
  have b: "get_weather_forecast (PStr ''Oslo'') (PInt 2) (PStr ''kelvin'') no_effects =
       get_weather_forecast (PStr ''Oslo'') (PInt 2) (PStr ''imperial'') no_effects"
    using t [THEN conjunct2, THEN conjunct2, THEN conjunct1] .
  have c: "temp_unit (PStr ''kelvin'') = deg @ ''F''"
    using t [THEN conjunct2, THEN conjunct2, THEN conjunct2, THEN conjunct1] .
  have d: "forecast_day (PStr ''kelvin'') 1 =
       calendar @ '' Day 2:\<newline>   '' @ thermometer @ '' High: 79'' @ deg @ ''F, Low: 61'' @
       deg @ ''F\<newline>   '' @ cloud @ '' Conditions: Cloudy\<newline>   '' @ rain_cloud @
       '' Precipitation: 15%\<newline>\<newline>''"
    using t [THEN conjunct2, THEN conjunct2, THEN conjunct2, THEN conjunct2]
    by (simp add: n)
  show ?thesis
    using h r a f b c d by simp
qed

end
